theory Spec2Isabelle
  imports Main "HOL-Library.Word"
begin

section \<open>Engine handles and the engine interface\<close>

text \<open>
  \<^verbatim>\<open>TSMBuffer\<close>, \<^verbatim>\<open>TSMLoc\<close>, \<^verbatim>\<open>void *\<close> and \<^verbatim>\<open>const char *\<close> are addresses;
  address \<open>0\<close> is \<^verbatim>\<open>NULL\<close>. Request.cc only stores handles, tests them against
  \<^verbatim>\<open>NULL\<close> and compares the method pointer with the engine's well-known method
  strings, so an address is all the model keeps of a handle.
\<close>

type_synonym ptr = nat

abbreviation NULL :: ptr where
  "NULL \<equiv> 0"

datatype TSReturnCode = TS_ERROR | TS_SUCCESS

datatype TSParseResult = TS_PARSE_ERROR | TS_PARSE_DONE | TS_PARSE_OK | TS_PARSE_CONT

datatype HttpMethod =
    HTTP_METHOD_UNKNOWN
  | HTTP_METHOD_GET
  | HTTP_METHOD_POST
  | HTTP_METHOD_HEAD
  | HTTP_METHOD_CONNECT
  | HTTP_METHOD_DELETE
  | HTTP_METHOD_ICP_QUERY
  | HTTP_METHOD_OPTIONS
  | HTTP_METHOD_PURGE
  | HTTP_METHOD_PUT
  | HTTP_METHOD_TRACE

datatype HttpVersion =
    HTTP_VERSION_UNKNOWN
  | HTTP_VERSION_0_9
  | HTTP_VERSION_1_0
  | HTTP_VERSION_1_1

text \<open>
  The engine (\<^verbatim>\<open>ts/ts.h\<close>) and the version decoder of \<^verbatim>\<open>utils_internal.h\<close> are
  outside Request.cc: they are a parameter of every operation. The ten
  \<^verbatim>\<open>TS_HTTP_METHOD_*\<close> fields are the addresses of the engine's well-known method
  strings. A function with an out-parameter returns the value left in it
  (\<^verbatim>\<open>NULL\<close> when the engine writes nothing: Request.cc passes a location that is
  \<^verbatim>\<open>NULL\<close> before each such call). \<^verbatim>\<open>TSHttpHdrMethodGet\<close> returns the method pointer
  and the length written through \<^verbatim>\<open>&method_len\<close>.
\<close>

record engine =
  TS_HTTP_METHOD_GET :: ptr
  TS_HTTP_METHOD_POST :: ptr
  TS_HTTP_METHOD_HEAD :: ptr
  TS_HTTP_METHOD_CONNECT :: ptr
  TS_HTTP_METHOD_DELETE :: ptr
  TS_HTTP_METHOD_ICP_QUERY :: ptr
  TS_HTTP_METHOD_OPTIONS :: ptr
  TS_HTTP_METHOD_PURGE :: ptr
  TS_HTTP_METHOD_PUT :: ptr
  TS_HTTP_METHOD_TRACE :: ptr
  TSMBufferCreate :: ptr
  TSUrlCreate :: "ptr \<Rightarrow> TSReturnCode \<times> ptr"
  TSUrlParse :: "ptr \<Rightarrow> ptr \<Rightarrow> string \<Rightarrow> TSParseResult"
  TSHttpHdrUrlGet :: "ptr \<Rightarrow> ptr \<Rightarrow> TSReturnCode \<times> ptr"
  TSHttpHdrMethodGet :: "ptr \<Rightarrow> ptr \<Rightarrow> ptr \<times> int"
  getHttpVersion :: "ptr \<Rightarrow> ptr \<Rightarrow> HttpVersion"

text \<open>
  What an operation does besides changing the request state is a list of events in
  program order: the engine calls it makes and the lines it logs. One constructor of
  \<open>log_msg\<close> per format string of Request.cc, with the arguments that are logged.
\<close>

datatype log_msg =
    Initialized_request_object ptr ptr
  | Not_a_valid_url string
  | Could_not_create_URL_field ptr
  | Reinitialization ptr ptr ptr ptr
  | TSHttpHdrUrlGet_returned_null ptr ptr
  | Initialized_url
  | TSHttpHdrMethodGet_returned_null ptr ptr ptr int
  | Initializing_request_version HttpVersion ptr ptr
  | Destroying_request_object ptr ptr ptr

datatype event =
    LOG_ERROR log_msg
  | LOG_DEBUG log_msg
  | Call_TSMBufferCreate
  | Call_TSUrlCreate ptr
  | Call_TSUrlParse ptr ptr string
  | Call_TSHttpHdrUrlGet ptr ptr
  | Call_TSHttpHdrMethodGet ptr ptr
  | Call_getHttpVersion ptr ptr
  | Call_TSHandleMLocRelease ptr ptr ptr
  | Call_TSMBufferDestroy ptr

fun is_LOG_ERROR :: "event \<Rightarrow> bool" where
  "is_LOG_ERROR (LOG_ERROR m) = True"
| "is_LOG_ERROR e = False"

fun is_Reinitialization :: "event \<Rightarrow> bool" where
  "is_Reinitialization (LOG_ERROR (Reinitialization cur_buf cur_loc buf loc)) = True"
| "is_Reinitialization e = False"

fun is_method_query :: "event \<Rightarrow> bool" where
  "is_method_query (Call_TSHttpHdrMethodGet buf loc) = True"
| "is_method_query e = False"

fun is_engine_call :: "event \<Rightarrow> bool" where
  "is_engine_call (LOG_ERROR m) = False"
| "is_engine_call (LOG_DEBUG m) = False"
| "is_engine_call e = True"

section \<open>The members of the request state\<close>

text \<open>
  Isabelle reserves names that end in an underscore, so the member \<^verbatim>\<open>hdr_buf_\<close> is
  written \<open>hdr_buf_m\<close>, and likewise for the others.
\<close>

text \<open>
  Modelled from the spec: \<^verbatim>\<open>InitializableValue.h\<close> is not among the sources. A cached
  scalar is a value with a flag: uninitialized (the value is the default and is
  recomputed on the next read) or initialized (the value is authoritative), and it
  becomes initialized when a value is set, by construction or by a lazy computation.
  Request.cc uses the two-argument constructor, \<^verbatim>\<open>setValue\<close>, \<^verbatim>\<open>isInitialized\<close>,
  \<^verbatim>\<open>getValue\<close>, the assignment of a value (which sets it, as \<^verbatim>\<open>setValue\<close>) and the
  conversion to the value.
\<close>

record 'a InitializableValue =
  value_m :: 'a
  initialized_m :: bool

definition InitializableValue_ctor :: "'a \<Rightarrow> bool \<Rightarrow> 'a InitializableValue" where
  "InitializableValue_ctor v initialized = \<lparr>value_m = v, initialized_m = initialized\<rparr>"

definition setValue :: "'a \<Rightarrow> 'a InitializableValue \<Rightarrow> 'a InitializableValue" where
  "setValue v iv = iv\<lparr>value_m := v, initialized_m := True\<rparr>"

definition isInitialized :: "'a InitializableValue \<Rightarrow> bool" where
  "isInitialized iv = initialized_m iv"

definition getValue :: "'a InitializableValue \<Rightarrow> 'a" where
  "getValue iv = value_m iv"

text \<open>
  Modelled from the spec: \<^verbatim>\<open>Headers.cc\<close> is not among the sources. A header collection
  is attached (it views engine storage through a buffer and a location handle) or
  detached (a private store), in one mode for its whole lifetime: the two
  initializers choose the mode of a collection that has none yet (both handles null
  and not detached) and leave any other collection as it is.
\<close>

record Headers =
  headers_buf_m :: ptr
  headers_loc_m :: ptr
  detached_m :: bool

definition Headers_ctor :: Headers where
  "Headers_ctor = \<lparr>headers_buf_m = NULL, headers_loc_m = NULL, detached_m = False\<rparr>"

definition Headers_has_mode :: "Headers \<Rightarrow> bool" where
  "Headers_has_mode h = (headers_buf_m h \<noteq> NULL \<or> headers_loc_m h \<noteq> NULL \<or> detached_m h)"

definition Headers_init :: "ptr \<Rightarrow> ptr \<Rightarrow> Headers \<Rightarrow> Headers" where
  "Headers_init hdr_buf hdr_loc h =
     (if Headers_has_mode h then h
      else h\<lparr>headers_buf_m := hdr_buf, headers_loc_m := hdr_loc\<rparr>)"

definition Headers_initDetached :: "Headers \<Rightarrow> Headers" where
  "Headers_initDetached h = (if Headers_has_mode h then h else h\<lparr>detached_m := True\<rparr>)"

text \<open>
  Modelled from the spec: \<^verbatim>\<open>Url.cc\<close> is not among the sources. A URL view
  materializes from one buffer and location handle; before that it is unset.
\<close>

record Url =
  url_view_buf_m :: ptr
  url_view_loc_m :: ptr

definition Url_ctor :: Url where
  "Url_ctor = \<lparr>url_view_buf_m = NULL, url_view_loc_m = NULL\<rparr>"

definition Url_init :: "ptr \<Rightarrow> ptr \<Rightarrow> Url \<Rightarrow> Url" where
  "Url_init hdr_buf url_loc u = u\<lparr>url_view_buf_m := hdr_buf, url_view_loc_m := url_loc\<rparr>"

definition Url_is_unset :: "Url \<Rightarrow> bool" where
  "Url_is_unset u = (u = Url_ctor)"

section \<open>Request.cc\<close>

record RequestState =
  hdr_buf_m :: ptr
  hdr_loc_m :: ptr
  url_loc_m :: ptr
  url_m :: Url
  headers_m :: Headers
  method_m :: "HttpMethod InitializableValue"
  version_m :: "HttpVersion InitializableValue"
  destroy_buf_m :: bool

definition RequestState_ctor :: RequestState where
  "RequestState_ctor =
     \<lparr>hdr_buf_m = NULL, hdr_loc_m = NULL, url_loc_m = NULL,
      url_m = Url_ctor, headers_m = Headers_ctor,
      method_m = InitializableValue_ctor HTTP_METHOD_UNKNOWN False,
      version_m = InitializableValue_ctor HTTP_VERSION_UNKNOWN False,
      destroy_buf_m = False\<rparr>"

text \<open>\<^verbatim>\<open>Request::Request()\<close>\<close>

definition Request_default :: "RequestState \<times> event list" where
  "Request_default = (RequestState_ctor, [])"

text \<open>\<^verbatim>\<open>void Request::init(void *hdr_buf, void *hdr_loc)\<close>\<close>

definition init :: "engine \<Rightarrow> ptr \<Rightarrow> ptr \<Rightarrow> RequestState \<Rightarrow> RequestState \<times> event list" where
  "init eng hdr_buf hdr_loc st =
     (if hdr_buf_m st \<noteq> NULL \<or> hdr_loc_m st \<noteq> NULL then
        (st, [LOG_ERROR (Reinitialization (hdr_buf_m st) (hdr_loc_m st) hdr_buf hdr_loc)])
      else
        (let st1 = st\<lparr>hdr_buf_m := hdr_buf\<rparr>;
             st2 = st1\<lparr>hdr_loc_m := hdr_loc\<rparr>;
             st3 = st2\<lparr>headers_m := Headers_init (hdr_buf_m st2) (hdr_loc_m st2) (headers_m st2)\<rparr>;
             st4 = st3\<lparr>url_loc_m := NULL\<rparr>;
             st5 = st4\<lparr>url_loc_m := snd (TSHttpHdrUrlGet eng (hdr_buf_m st4) (hdr_loc_m st4))\<rparr>;
             call = Call_TSHttpHdrUrlGet (hdr_buf_m st4) (hdr_loc_m st4)
         in if url_loc_m st5 = NULL then
              (st5, [call, LOG_ERROR (TSHttpHdrUrlGet_returned_null (hdr_buf_m st5) (hdr_loc_m st5))])
            else
              (st5\<lparr>url_m := Url_init (hdr_buf_m st5) (url_loc_m st5) (url_m st5)\<rparr>,
               [call, LOG_DEBUG Initialized_url])))"

text \<open>\<^verbatim>\<open>Request::Request(void *hdr_buf, void *hdr_loc)\<close>\<close>

definition Request_attached :: "engine \<Rightarrow> ptr \<Rightarrow> ptr \<Rightarrow> RequestState \<times> event list" where
  "Request_attached eng hdr_buf hdr_loc =
     (let (st, evs) = init eng hdr_buf hdr_loc RequestState_ctor
      in (st, evs @ [LOG_DEBUG (Initialized_request_object hdr_buf hdr_loc)]))"

text \<open>\<^verbatim>\<open>Request::Request(const string &url_str, HttpMethod method, HttpVersion version)\<close>\<close>

definition Request_standalone ::
    "engine \<Rightarrow> string \<Rightarrow> HttpMethod \<Rightarrow> HttpVersion \<Rightarrow> RequestState \<times> event list" where
  "Request_standalone eng url_str method version =
     (let st0 = RequestState_ctor;
          st1 = st0\<lparr>method_m := setValue method (method_m st0)\<rparr>;
          st2 = st1\<lparr>version_m := setValue version (version_m st1)\<rparr>;
          st3 = st2\<lparr>destroy_buf_m := True\<rparr>;
          st4 = st3\<lparr>hdr_buf_m := TSMBufferCreate eng\<rparr>;
          st5 = st4\<lparr>headers_m := Headers_initDetached (headers_m st4)\<rparr>;
          (rc, loc) = TSUrlCreate eng (hdr_buf_m st5);
          st6 = st5\<lparr>url_loc_m := loc\<rparr>;
          calls = [Call_TSMBufferCreate, Call_TSUrlCreate (hdr_buf_m st5)]
      in if rc = TS_SUCCESS then
           (if TSUrlParse eng (hdr_buf_m st6) (url_loc_m st6) url_str \<noteq> TS_PARSE_DONE then
              (st6, calls @ [Call_TSUrlParse (hdr_buf_m st6) (url_loc_m st6) url_str,
                             LOG_ERROR (Not_a_valid_url url_str)])
            else
              (st6\<lparr>url_m := Url_init (hdr_buf_m st6) (url_loc_m st6) (url_m st6)\<rparr>,
               calls @ [Call_TSUrlParse (hdr_buf_m st6) (url_loc_m st6) url_str]))
         else
           (st6\<lparr>url_loc_m := NULL\<rparr>,
            calls @ [LOG_ERROR (Could_not_create_URL_field (hdr_buf_m st6))]))"

text \<open>
  The chain of pointer comparisons of \<^verbatim>\<open>Request::getMethod\<close>, in the order of the
  source; every branch assigns to \<^verbatim>\<open>method_\<close>, and there is no final \<^verbatim>\<open>else\<close>.
\<close>

definition assign_method :: "engine \<Rightarrow> ptr \<Rightarrow> RequestState \<Rightarrow> RequestState" where
  "assign_method eng method_str st =
     (if method_str = TS_HTTP_METHOD_GET eng then
        st\<lparr>method_m := setValue HTTP_METHOD_GET (method_m st)\<rparr>
      else if method_str = TS_HTTP_METHOD_POST eng then
        st\<lparr>method_m := setValue HTTP_METHOD_POST (method_m st)\<rparr>
      else if method_str = TS_HTTP_METHOD_HEAD eng then
        st\<lparr>method_m := setValue HTTP_METHOD_HEAD (method_m st)\<rparr>
      else if method_str = TS_HTTP_METHOD_CONNECT eng then
        st\<lparr>method_m := setValue HTTP_METHOD_CONNECT (method_m st)\<rparr>
      else if method_str = TS_HTTP_METHOD_DELETE eng then
        st\<lparr>method_m := setValue HTTP_METHOD_DELETE (method_m st)\<rparr>
      else if method_str = TS_HTTP_METHOD_ICP_QUERY eng then
        st\<lparr>method_m := setValue HTTP_METHOD_ICP_QUERY (method_m st)\<rparr>
      else if method_str = TS_HTTP_METHOD_OPTIONS eng then
        st\<lparr>method_m := setValue HTTP_METHOD_OPTIONS (method_m st)\<rparr>
      else if method_str = TS_HTTP_METHOD_PURGE eng then
        st\<lparr>method_m := setValue HTTP_METHOD_PURGE (method_m st)\<rparr>
      else if method_str = TS_HTTP_METHOD_PUT eng then
        st\<lparr>method_m := setValue HTTP_METHOD_PUT (method_m st)\<rparr>
      else if method_str = TS_HTTP_METHOD_TRACE eng then
        st\<lparr>method_m := setValue HTTP_METHOD_TRACE (method_m st)\<rparr>
      else st)"

text \<open>
  \<^verbatim>\<open>HttpMethod Request::getMethod() const\<close>: the value returned, the state (the
  method is cached through the \<^verbatim>\<open>state_\<close> pointer) and the events.
\<close>

definition getMethod :: "engine \<Rightarrow> RequestState \<Rightarrow> HttpMethod \<times> RequestState \<times> event list" where
  "getMethod eng st =
     (if \<not> isInitialized (method_m st) \<and> hdr_buf_m st \<noteq> NULL \<and> hdr_loc_m st \<noteq> NULL then
        (let (method_str, method_len) = TSHttpHdrMethodGet eng (hdr_buf_m st) (hdr_loc_m st);
             call = Call_TSHttpHdrMethodGet (hdr_buf_m st) (hdr_loc_m st)
         in if method_str \<noteq> NULL \<and> method_len \<noteq> 0 then
              (let st' = assign_method eng method_str st
               in (getValue (method_m st'), st', [call]))
            else
              (getValue (method_m st), st,
               [call, LOG_ERROR (TSHttpHdrMethodGet_returned_null
                                   (hdr_buf_m st) (hdr_loc_m st) method_str method_len)]))
      else (getValue (method_m st), st, []))"

text \<open>\<^verbatim>\<open>Url &Request::getUrl()\<close>\<close>

definition getUrl :: "RequestState \<Rightarrow> Url" where
  "getUrl st = url_m st"

text \<open>\<^verbatim>\<open>HttpVersion Request::getVersion() const\<close>\<close>

definition getVersion :: "engine \<Rightarrow> RequestState \<Rightarrow> HttpVersion \<times> RequestState \<times> event list" where
  "getVersion eng st =
     (if \<not> isInitialized (version_m st) \<and> hdr_buf_m st \<noteq> NULL \<and> hdr_loc_m st \<noteq> NULL then
        (let st' = st\<lparr>version_m :=
                       setValue (getHttpVersion eng (hdr_buf_m st) (hdr_loc_m st)) (version_m st)\<rparr>
         in (getValue (version_m st'), st',
             [Call_getHttpVersion (hdr_buf_m st) (hdr_loc_m st),
              LOG_DEBUG (Initializing_request_version (getValue (version_m st'))
                           (hdr_buf_m st') (hdr_loc_m st'))]))
      else (getValue (version_m st), st, []))"

text \<open>\<^verbatim>\<open>Headers &Request::getHeaders() const\<close>\<close>

definition getHeaders :: "RequestState \<Rightarrow> Headers" where
  "getHeaders st = headers_m st"

text \<open>
  \<^verbatim>\<open>Request::~Request()\<close>: the events of the destructor. The final
  \<^verbatim>\<open>delete state_\<close> frees the state record itself and makes no engine call.
\<close>

definition Request_dtor :: "RequestState \<Rightarrow> event list" where
  "Request_dtor st =
     (if url_loc_m st \<noteq> NULL then
        (if destroy_buf_m st then
           (let null_parent_loc = NULL
            in [Call_TSHandleMLocRelease (hdr_buf_m st) null_parent_loc (url_loc_m st),
                Call_TSMBufferDestroy (hdr_buf_m st)])
         else
           [LOG_DEBUG (Destroying_request_object (hdr_buf_m st) (hdr_loc_m st) (url_loc_m st)),
            Call_TSHandleMLocRelease (hdr_buf_m st) (hdr_loc_m st) (url_loc_m st)])
      else [])"

section \<open>The method table and repeated reads\<close>

text \<open>
  The table of known method tokens as the specification lists it (GET, POST, HEAD,
  PUT, DELETE, CONNECT, OPTIONS, TRACE, PURGE, ICP-QUERY), to be compared with the
  chain of \<open>assign_method\<close>.
\<close>

definition method_table :: "engine \<Rightarrow> (ptr \<times> HttpMethod) list" where
  "method_table eng =
     [(TS_HTTP_METHOD_GET eng, HTTP_METHOD_GET),
      (TS_HTTP_METHOD_POST eng, HTTP_METHOD_POST),
      (TS_HTTP_METHOD_HEAD eng, HTTP_METHOD_HEAD),
      (TS_HTTP_METHOD_PUT eng, HTTP_METHOD_PUT),
      (TS_HTTP_METHOD_DELETE eng, HTTP_METHOD_DELETE),
      (TS_HTTP_METHOD_CONNECT eng, HTTP_METHOD_CONNECT),
      (TS_HTTP_METHOD_OPTIONS eng, HTTP_METHOD_OPTIONS),
      (TS_HTTP_METHOD_TRACE eng, HTTP_METHOD_TRACE),
      (TS_HTTP_METHOD_PURGE eng, HTTP_METHOD_PURGE),
      (TS_HTTP_METHOD_ICP_QUERY eng, HTTP_METHOD_ICP_QUERY)]"

definition known_method_tokens :: "engine \<Rightarrow> ptr list" where
  "known_method_tokens eng = map fst (method_table eng)"

text \<open>
  The method a reply of \<^verbatim>\<open>TSHttpHdrMethodGet\<close> stands for: a null pointer or a zero
  length is no token at all, a pointer of the table is its method, and any other
  token is unknown.
\<close>

definition token_to_method :: "engine \<Rightarrow> ptr \<times> int \<Rightarrow> HttpMethod" where
  "token_to_method eng reply =
     (case reply of (method_str, method_len) \<Rightarrow>
        if method_str = NULL \<or> method_len = 0 then HTTP_METHOD_UNKNOWN
        else (case map_of (method_table eng) method_str of
                Some m \<Rightarrow> m
              | None \<Rightarrow> HTTP_METHOD_UNKNOWN))"

text \<open>Two calls of \<^verbatim>\<open>getMethod\<close> in a row: both results, the final state, all events.\<close>

definition getMethod_twice ::
    "engine \<Rightarrow> RequestState \<Rightarrow> HttpMethod \<times> HttpMethod \<times> RequestState \<times> event list" where
  "getMethod_twice eng st =
     (let (m1, st1, evs1) = getMethod eng st;
          (m2, st2, evs2) = getMethod eng st1
      in (m1, m2, st2, evs1 @ evs2))"

text \<open>
  The engine calls a destructor makes if it follows one of the two paths only: release
  under a null parent and destroy the buffer when the buffer is owned, release under
  the header location otherwise.
\<close>

definition dtor_two_paths :: "RequestState \<Rightarrow> event list" where
  "dtor_two_paths st =
     (if destroy_buf_m st then
        [Call_TSHandleMLocRelease (hdr_buf_m st) NULL (url_loc_m st),
         Call_TSMBufferDestroy (hdr_buf_m st)]
      else [Call_TSHandleMLocRelease (hdr_buf_m st) (hdr_loc_m st) (url_loc_m st)])"

text \<open>
  A method cache is either initialized or still as \<^verbatim>\<open>RequestState()\<close> built it.
\<close>

definition method_cache_inv :: "RequestState \<Rightarrow> bool" where
  "method_cache_inv st =
     (isInitialized (method_m st)
      \<or> method_m st = InitializableValue_ctor HTTP_METHOD_UNKNOWN False)"

section \<open>An engine to run the operations on\<close>

text \<open>
  A small engine: the well-known method strings live at addresses 101 to 110, every
  header carries a method token at address 200 of length 5 (a method outside the
  table), the URL of a header is at location 7, and only one URL string parses.
\<close>

definition example_engine :: engine where
  "example_engine =
     \<lparr>TS_HTTP_METHOD_GET = 101, TS_HTTP_METHOD_POST = 102, TS_HTTP_METHOD_HEAD = 103,
      TS_HTTP_METHOD_CONNECT = 104, TS_HTTP_METHOD_DELETE = 105,
      TS_HTTP_METHOD_ICP_QUERY = 106, TS_HTTP_METHOD_OPTIONS = 107,
      TS_HTTP_METHOD_PURGE = 108, TS_HTTP_METHOD_PUT = 109, TS_HTTP_METHOD_TRACE = 110,
      TSMBufferCreate = 1,
      TSUrlCreate = (\<lambda>buf. (TS_SUCCESS, 2)),
      TSUrlParse = (\<lambda>buf loc s. if s = ''http://example.com/x'' then TS_PARSE_DONE
                                 else TS_PARSE_ERROR),
      TSHttpHdrUrlGet = (\<lambda>buf loc. if buf = NULL \<or> loc = NULL then (TS_ERROR, NULL)
                                    else (TS_SUCCESS, 7)),
      TSHttpHdrMethodGet = (\<lambda>buf loc. (200, 5)),
      getHttpVersion = (\<lambda>buf loc. HTTP_VERSION_1_1)\<rparr>"

text \<open>The same engine with a header whose method is the well-known string PUT.\<close>

definition put_engine :: engine where
  "put_engine = example_engine\<lparr>TSHttpHdrMethodGet := (\<lambda>buf loc. (109, 3))\<rparr>"

text \<open>The same engine with a header from which no URL location can be extracted.\<close>

definition no_url_engine :: engine where
  "no_url_engine = example_engine\<lparr>TSHttpHdrUrlGet := (\<lambda>buf loc. (TS_ERROR, NULL))\<rparr>"

text \<open>A request attached to buffer 3 and header location 4 of the example engine.\<close>

definition attached_request :: RequestState where
  "attached_request = fst (Request_attached example_engine 3 4)"

section \<open>Plugin.h\<close>

datatype HookType =
    HOOK_READ_REQUEST_HEADERS_PRE_REMAP
  | HOOK_READ_REQUEST_HEADERS_POST_REMAP
  | HOOK_SEND_REQUEST_HEADERS
  | HOOK_READ_RESPONSE_HEADERS
  | HOOK_SEND_RESPONSE_HEADERS
  | HOOK_OS_DNS

text \<open>
  Modelled from the spec: \<^verbatim>\<open>Transaction.h\<close> and \<^verbatim>\<open>Transaction.cc\<close> are not among the
  sources. A transaction exposes the resume/terminate protocol; what a handler does
  with a transaction is the list of calls it makes on it, and \<open>resume\<close> adds one.
\<close>

datatype Transaction_call = Call_resume | Call_error

type_synonym Transaction = "Transaction_call list"

definition resume :: "Transaction \<Rightarrow> Transaction" where
  "resume transaction = transaction @ [Call_resume]"

text \<open>The six virtual handlers of \<^verbatim>\<open>class Plugin\<close> with their default bodies.\<close>

definition handleReadRequestHeadersPreRemap :: "Transaction \<Rightarrow> Transaction" where
  "handleReadRequestHeadersPreRemap transaction = resume transaction"

definition handleReadRequestHeadersPostRemap :: "Transaction \<Rightarrow> Transaction" where
  "handleReadRequestHeadersPostRemap transaction = resume transaction"

definition handleSendRequestHeaders :: "Transaction \<Rightarrow> Transaction" where
  "handleSendRequestHeaders transaction = resume transaction"

definition handleReadResponseHeaders :: "Transaction \<Rightarrow> Transaction" where
  "handleReadResponseHeaders transaction = resume transaction"

definition handleSendResponseHeaders :: "Transaction \<Rightarrow> Transaction" where
  "handleSendResponseHeaders transaction = resume transaction"

definition handleOsDns :: "Transaction \<Rightarrow> Transaction" where
  "handleOsDns transaction = resume transaction"

text \<open>
  The handler of each hook, as the comments of Plugin.h pair them ("This method must
  be implemented when you hook ...").
\<close>

fun default_handler :: "HookType \<Rightarrow> Transaction \<Rightarrow> Transaction" where
  "default_handler HOOK_READ_REQUEST_HEADERS_PRE_REMAP = handleReadRequestHeadersPreRemap"
| "default_handler HOOK_READ_REQUEST_HEADERS_POST_REMAP = handleReadRequestHeadersPostRemap"
| "default_handler HOOK_SEND_REQUEST_HEADERS = handleSendRequestHeaders"
| "default_handler HOOK_READ_RESPONSE_HEADERS = handleReadResponseHeaders"
| "default_handler HOOK_SEND_RESPONSE_HEADERS = handleSendResponseHeaders"
| "default_handler HOOK_OS_DNS = handleOsDns"

section \<open>CaseInsensitiveStringComparator.h\<close>

text \<open>
  Modelled from the spec: \<^verbatim>\<open>CaseInsensitiveStringComparator.cc\<close> is not among the
  sources; the header declares \<^verbatim>\<open>compare\<close> ("numerical value of lexicographical
  comparison a la strcmp") and \<^verbatim>\<open>operator()\<close> ("less-than"). The ordering compares
  byte strings lexicographically after per-byte ASCII case folding, bytes outside the
  ASCII letters by their raw value, and the less-than is derived from \<open>compare\<close>. The
  strings are lists of bytes; \<open>compare\<close> returns \<open>-1\<close>, \<open>0\<close> or \<open>1\<close>.
\<close>

type_synonym byte = "8 word"

definition fold_case :: "byte \<Rightarrow> byte" where
  "fold_case c = (if 0x41 \<le> c \<and> c \<le> 0x5A then c + 0x20 else c)"

fun compare :: "byte list \<Rightarrow> byte list \<Rightarrow> int" where
  "compare [] [] = 0"
| "compare [] (r # rhs) = - 1"
| "compare (l # lhs) [] = 1"
| "compare (l # lhs) (r # rhs) =
     (if fold_case l < fold_case r then - 1
      else if fold_case r < fold_case l then 1
      else compare lhs rhs)"

definition less_than_ci :: "byte list \<Rightarrow> byte list \<Rightarrow> bool" where
  "less_than_ci lhs rhs = (compare lhs rhs < 0)"

section \<open>The case-insensitive ordering\<close>

lemma compare_zero_iff:
  "compare lhs rhs = 0 \<longleftrightarrow> map fold_case lhs = map fold_case rhs"
  by (induction lhs rhs rule: compare.induct) auto

lemma compare_flip: "compare rhs lhs = - compare lhs rhs"
  by (induction lhs rhs rule: compare.induct) auto

lemma compare_refl: "compare s s = 0"
  by (simp add: compare_zero_iff)

lemma compare_trans_neg:
  "compare a b < 0 \<Longrightarrow> compare b c < 0 \<Longrightarrow> compare a c < 0"
proof (induction a b arbitrary: c rule: compare.induct)
  case 1
  then show ?case by simp
next
  case (2 r rhs)
  then show ?case by (cases c) (auto split: if_splits)
next
  case (3 l lhs)
  then show ?case by simp
next
  case (4 l lhs r rhs)
  show ?case
  proof (cases c)
    case Nil
    with 4 show ?thesis by (simp split: if_splits)
  next
    case (Cons x xs)
    with 4 show ?thesis by (auto split: if_splits)
  qed
qed

lemma fold_case_non_ascii:
  assumes "0x80 \<le> c"
  shows "fold_case c = c"
proof -
  have "(0x5A::byte) < 0x80" by simp
  then have "0x5A < c" using assms by (rule less_le_trans)
  then have "\<not> c \<le> 0x5A" by (simp only: not_le)
  then show ?thesis by (simp add: fold_case_def)
qed

text \<open>
  Claim C9. For all byte strings \<open>a\<close> and \<open>b\<close>, \<open>compare a b\<close> is \<open>0\<close> exactly when
  \<open>a\<close> and \<open>b\<close> are equal after per-byte ASCII case folding (a byte from \<open>0x80\<close> on
  is folded to itself, so it is compared by its raw value); the less-than holds
  exactly when \<open>compare\<close> is negative; and the less-than is a strict weak order:
  irreflexive, transitive, and two strings are incomparable exactly when they are
  equal after folding.
\<close>

theorem comparator_strict_weak_order:
  "(compare a b = 0 \<longleftrightarrow> map fold_case a = map fold_case b)
   \<and> (less_than_ci a b \<longleftrightarrow> compare a b < 0)
   \<and> \<not> less_than_ci a a
   \<and> (less_than_ci a b \<and> less_than_ci b c \<longrightarrow> less_than_ci a c)
   \<and> (\<not> less_than_ci a b \<and> \<not> less_than_ci b a \<longleftrightarrow> map fold_case a = map fold_case b)
   \<and> (0x80 \<le> x \<longrightarrow> fold_case x = x)"
proof -
  have eq: "compare a b = 0 \<longleftrightarrow> map fold_case a = map fold_case b"
    by (rule compare_zero_iff)
  have irrefl: "\<not> less_than_ci a a"
    by (simp add: less_than_ci_def compare_refl)
  have trans: "less_than_ci a b \<and> less_than_ci b c \<longrightarrow> less_than_ci a c"
    unfolding less_than_ci_def using compare_trans_neg by blast
  have "\<not> less_than_ci a b \<and> \<not> less_than_ci b a \<longleftrightarrow> compare a b = 0"
    unfolding less_than_ci_def using compare_flip [of a b] by linarith
  then have equiv: "\<not> less_than_ci a b \<and> \<not> less_than_ci b a
      \<longleftrightarrow> map fold_case a = map fold_case b"
    using eq by simp
  show ?thesis
    using eq irrefl trans equiv fold_case_non_ascii by (simp add: less_than_ci_def)
qed

text \<open>
  On "Ab", "aC" and "AD" the order is transitive; "Host" and "hOST" compare equal;
  the byte \<open>0xE9\<close> is folded to itself.
\<close>

theorem comparator_strict_weak_order_witness:
  "less_than_ci [0x41, 0x62] [0x61, 0x43] \<and> less_than_ci [0x61, 0x43] [0x41, 0x44]
   \<and> less_than_ci [0x41, 0x62] [0x41, 0x44]
   \<and> compare [0x48, 0x6F, 0x73, 0x74] [0x68, 0x4F, 0x53, 0x54] = 0
   \<and> (0x80::byte) \<le> 0xE9 \<and> fold_case 0xE9 = 0xE9"
  using comparator_strict_weak_order [of "[0x41, 0x62]" "[0x61, 0x43]" "[0x41, 0x44]" "0xE9"]
    comparator_strict_weak_order [of "[0x48, 0x6F, 0x73, 0x74]" "[0x68, 0x4F, 0x53, 0x54]" "[]" "0"]
  by (simp add: less_than_ci_def fold_case_def)

section \<open>Evaluating the members\<close>

lemmas iv_defs = InitializableValue_ctor_def setValue_def isInitialized_def getValue_def

lemmas sub_defs = Headers_ctor_def Headers_has_mode_def Headers_init_def Headers_initDetached_def
  Url_ctor_def Url_init_def Url_is_unset_def

lemmas example_defs = example_engine_def put_engine_def no_url_engine_def attached_request_def
  Request_attached_def Request_default_def RequestState_ctor_def

section \<open>The method cache\<close>

text \<open>
  In every state the operations build, a method cache that is not initialized still
  holds the default of the constructor: the constructors establish it, and \<open>init\<close>,
  \<open>getMethod\<close> and \<open>getVersion\<close> keep it.
\<close>

lemma method_cache_inv_ctor: "method_cache_inv RequestState_ctor"
  by (simp add: method_cache_inv_def RequestState_ctor_def)

lemma method_cache_inv_standalone:
  "method_cache_inv (fst (Request_standalone eng url_str method version))"
  by (simp add: method_cache_inv_def Request_standalone_def Let_def iv_defs case_prod_beta)

lemma method_cache_inv_init:
  "method_cache_inv st \<Longrightarrow> method_cache_inv (fst (init eng hdr_buf hdr_loc st))"
  by (simp add: method_cache_inv_def init_def Let_def)

lemma method_cache_inv_assign:
  "method_cache_inv st \<Longrightarrow> method_cache_inv (assign_method eng method_str st)"
  by (simp add: method_cache_inv_def assign_method_def iv_defs)

lemma method_cache_inv_getMethod:
  "method_cache_inv st \<Longrightarrow> method_cache_inv (fst (snd (getMethod eng st)))"
  by (simp add: getMethod_def Let_def case_prod_beta method_cache_inv_assign)

lemma method_cache_inv_getVersion:
  "method_cache_inv st \<Longrightarrow> method_cache_inv (fst (snd (getVersion eng st)))"
  by (simp add: method_cache_inv_def getVersion_def Let_def)

lemma assign_method_table:
  assumes "distinct (known_method_tokens eng)"
  shows "getValue (method_m (assign_method eng method_str st)) =
           (case map_of (method_table eng) method_str of
              Some m \<Rightarrow> m
            | None \<Rightarrow> getValue (method_m st))"
  using assms
  by (simp add: assign_method_def known_method_tokens_def method_table_def iv_defs)

lemma getMethod_no_query:
  "isInitialized (method_m st) \<or> hdr_buf_m st = NULL \<or> hdr_loc_m st = NULL \<Longrightarrow>
   getMethod eng st = (getValue (method_m st), st, [])"
  by (auto simp add: getMethod_def)

lemma getVersion_no_query:
  "isInitialized (version_m st) \<or> hdr_buf_m st = NULL \<or> hdr_loc_m st = NULL \<Longrightarrow>
   getVersion eng st = (getValue (version_m st), st, [])"
  by (auto simp add: getVersion_def)

text \<open>
  Claim C1. For an attached request whose engine method token is not in the known
  set, two calls of \<open>getMethod\<close> should return unknown both times and read the
  method token from the engine at most once. The code does not: the chain of
  \<open>assign_method\<close> has no final branch, so an unrecognized token leaves the cache
  uninitialized. On the example request (attached to buffer 3 and location 4, token
  at address 200, none of the well-known strings) the two calls return unknown twice,
  leave the state as it was and read the method token from the engine twice.
\<close>

theorem getMethod_twice_reads_engine_twice:
  "fst (getMethod_twice example_engine attached_request) = HTTP_METHOD_UNKNOWN
   \<and> fst (snd (getMethod_twice example_engine attached_request)) = HTTP_METHOD_UNKNOWN
   \<and> fst (snd (snd (getMethod_twice example_engine attached_request))) = attached_request
   \<and> snd (snd (snd (getMethod_twice example_engine attached_request))) =
       [Call_TSHttpHdrMethodGet 3 4, Call_TSHttpHdrMethodGet 3 4]
   \<and> length (filter is_method_query
         (snd (snd (snd (getMethod_twice example_engine attached_request))))) = 2"
proof -
  have attached: "hdr_buf_m attached_request = 3" "hdr_loc_m attached_request = 4"
    "method_m attached_request = InitializableValue_ctor HTTP_METHOD_UNKNOWN False"
    by (simp_all add: example_defs init_def Let_def iv_defs sub_defs)
  have token: "TSHttpHdrMethodGet example_engine 3 4 = (200, 5)"
    by (simp add: example_engine_def)
  have unknown: "assign_method example_engine 200 attached_request = attached_request"
    by (simp add: assign_method_def example_engine_def)
  have once: "getMethod example_engine attached_request =
      (HTTP_METHOD_UNKNOWN, attached_request, [Call_TSHttpHdrMethodGet 3 4])"
    by (simp add: getMethod_def Let_def attached token unknown iv_defs)
  show ?thesis
    by (simp add: getMethod_twice_def once)
qed

section \<open>Attaching\<close>

text \<open>
  Claim C2. For every request already attached to engine handles (a buffer or a
  location handle is stored), a further call of \<open>init\<close> returns the state as it was,
  so the stored handles and the cached method, version, URL view and headers are
  unchanged; it logs the reinitialization error and returns normally.
\<close>

theorem init_attached_noop:
  assumes "hdr_buf_m st \<noteq> NULL \<or> hdr_loc_m st \<noteq> NULL"
  shows "init eng hdr_buf hdr_loc st =
     (st, [LOG_ERROR (Reinitialization (hdr_buf_m st) (hdr_loc_m st) hdr_buf hdr_loc)])"
proof -
  from assms have guard: "(hdr_buf_m st \<noteq> NULL \<or> hdr_loc_m st \<noteq> NULL) = True"
    by simp
  show ?thesis
    unfolding init_def by (simp only: guard if_True)
qed

theorem init_attached_noop_witness:
  "hdr_buf_m attached_request = 3 \<and> hdr_loc_m attached_request = 4
   \<and> init example_engine 5 6 attached_request =
       (attached_request, [LOG_ERROR (Reinitialization 3 4 5 6)])"
  using init_attached_noop [of attached_request example_engine 5 6]
  by (simp add: example_defs init_def Let_def iv_defs sub_defs)

text \<open>
  Claim C7. For every first call of \<open>init\<close> on an unattached request (no handle
  stored, header collection without a mode), if the engine extracts no URL location
  from the header location, the URL view stays as it was (unset), the error is
  logged, and initialization still succeeds: both handles are stored, the header
  collection is attached to the same buffer and location, and the descriptor does
  not come to own the buffer.
\<close>

theorem init_without_url:
  assumes "hdr_buf_m st = NULL" and "hdr_loc_m st = NULL"
    and "\<not> Headers_has_mode (headers_m st)"
    and "snd (TSHttpHdrUrlGet eng hdr_buf hdr_loc) = NULL"
  shows "hdr_buf_m (fst (init eng hdr_buf hdr_loc st)) = hdr_buf
   \<and> hdr_loc_m (fst (init eng hdr_buf hdr_loc st)) = hdr_loc
   \<and> getHeaders (fst (init eng hdr_buf hdr_loc st)) =
       \<lparr>headers_buf_m = hdr_buf, headers_loc_m = hdr_loc, detached_m = False\<rparr>
   \<and> getUrl (fst (init eng hdr_buf hdr_loc st)) = getUrl st
   \<and> url_loc_m (fst (init eng hdr_buf hdr_loc st)) = NULL
   \<and> destroy_buf_m (fst (init eng hdr_buf hdr_loc st)) = destroy_buf_m st
   \<and> method_m (fst (init eng hdr_buf hdr_loc st)) = method_m st
   \<and> version_m (fst (init eng hdr_buf hdr_loc st)) = version_m st
   \<and> snd (init eng hdr_buf hdr_loc st) =
       [Call_TSHttpHdrUrlGet hdr_buf hdr_loc,
        LOG_ERROR (TSHttpHdrUrlGet_returned_null hdr_buf hdr_loc)]"
proof -
  have headers: "Headers_init hdr_buf hdr_loc (headers_m st) =
      \<lparr>headers_buf_m = hdr_buf, headers_loc_m = hdr_loc, detached_m = False\<rparr>"
    using assms(3) by (simp add: Headers_init_def Headers_has_mode_def)
  show ?thesis
    using assms(1,2,4) headers by (simp add: init_def Let_def getHeaders_def getUrl_def)
qed

theorem init_without_url_witness:
  "Url_is_unset (getUrl (fst (init no_url_engine 3 4 (fst Request_default))))
   \<and> hdr_buf_m (fst (init no_url_engine 3 4 (fst Request_default))) = 3
   \<and> hdr_loc_m (fst (init no_url_engine 3 4 (fst Request_default))) = 4
   \<and> getHeaders (fst (init no_url_engine 3 4 (fst Request_default))) =
       \<lparr>headers_buf_m = 3, headers_loc_m = 4, detached_m = False\<rparr>
   \<and> \<not> destroy_buf_m (fst (init no_url_engine 3 4 (fst Request_default)))
   \<and> snd (init no_url_engine 3 4 (fst Request_default)) =
       [Call_TSHttpHdrUrlGet 3 4, LOG_ERROR (TSHttpHdrUrlGet_returned_null 3 4)]"
  using init_without_url [of "fst Request_default" no_url_engine 3 4]
  by (simp add: example_defs getUrl_def sub_defs)

lemma init_unattached:
  assumes "hdr_buf_m st = NULL" and "hdr_loc_m st = NULL"
  shows "hdr_buf_m (fst (init eng hdr_buf hdr_loc st)) = hdr_buf"
    and "hdr_loc_m (fst (init eng hdr_buf hdr_loc st)) = hdr_loc"
    and "filter is_Reinitialization (snd (init eng hdr_buf hdr_loc st)) = []"
    and "filter is_LOG_ERROR (snd (init eng hdr_buf hdr_loc st)) =
           (if snd (TSHttpHdrUrlGet eng hdr_buf hdr_loc) = NULL
            then [LOG_ERROR (TSHttpHdrUrlGet_returned_null hdr_buf hdr_loc)] else [])"
  using assms by (simp_all add: init_def Let_def)

text \<open>
  Claim C10 as stated fails. On a freshly default-constructed request, \<open>init\<close> with
  two null handles does report an error when the engine, as the example engine does,
  finds no URL location under null handles: the null URL location is logged.
\<close>

theorem init_null_counterexample:
  "filter is_LOG_ERROR (snd (init example_engine NULL NULL (fst Request_default))) \<noteq> []"
  by (simp add: init_def Let_def example_defs sub_defs)

text \<open>
  Claim C10, amended. The guard of \<open>init\<close> tests only the stored handles: on a
  freshly default-constructed request, \<open>init\<close> with two null handles reports no
  reinitialization error (the one error it may log is the null URL location, exactly
  when the engine yields none for the null handles), leaves both stored handles null,
  and a following \<open>init\<close> is accepted: it stores its handles and logs no
  reinitialization. Attaching exactly once is not enforced for null handles.
\<close>

theorem init_null_not_enforced:
  "filter is_Reinitialization (snd (init eng NULL NULL (fst Request_default))) = []
   \<and> filter is_LOG_ERROR (snd (init eng NULL NULL (fst Request_default))) =
       (if snd (TSHttpHdrUrlGet eng NULL NULL) = NULL
        then [LOG_ERROR (TSHttpHdrUrlGet_returned_null NULL NULL)] else [])
   \<and> hdr_buf_m (fst (init eng NULL NULL (fst Request_default))) = NULL
   \<and> hdr_loc_m (fst (init eng NULL NULL (fst Request_default))) = NULL
   \<and> hdr_buf_m (fst (init eng hdr_buf hdr_loc (fst (init eng NULL NULL (fst Request_default)))))
       = hdr_buf
   \<and> hdr_loc_m (fst (init eng hdr_buf hdr_loc (fst (init eng NULL NULL (fst Request_default)))))
       = hdr_loc
   \<and> filter is_Reinitialization
       (snd (init eng hdr_buf hdr_loc (fst (init eng NULL NULL (fst Request_default))))) = []"
proof -
  let ?st0 = "fst Request_default"
  let ?st1 = "fst (init eng NULL NULL ?st0)"
  have fresh: "hdr_buf_m ?st0 = NULL" "hdr_loc_m ?st0 = NULL"
    by (simp_all add: Request_default_def RequestState_ctor_def)
  note first = init_unattached [OF fresh, of eng NULL NULL]
  have still: "hdr_buf_m ?st1 = NULL" "hdr_loc_m ?st1 = NULL"
    using first(1,2) by simp_all
  note second = init_unattached [OF still, of eng hdr_buf hdr_loc]
  show ?thesis
    by (intro conjI) (rule first second)+
qed

theorem init_null_not_enforced_witness:
  "hdr_buf_m (fst (init example_engine NULL NULL (fst Request_default))) = NULL
   \<and> hdr_loc_m (fst (init example_engine NULL NULL (fst Request_default))) = NULL
   \<and> hdr_buf_m (fst (init example_engine 3 4 (fst (init example_engine NULL NULL (fst Request_default))))) = 3
   \<and> hdr_loc_m (fst (init example_engine 3 4 (fst (init example_engine NULL NULL (fst Request_default))))) = 4
   \<and> filter is_LOG_ERROR (snd (init example_engine NULL NULL (fst Request_default))) =
       [LOG_ERROR (TSHttpHdrUrlGet_returned_null NULL NULL)]"
  using init_null_not_enforced [of example_engine 3 4]
  by (simp add: example_engine_def)

section \<open>Reading the method\<close>

text \<open>
  Claim C4. For every request with a valid handle (both handles set) and a method
  cache that was never initialized, \<open>getMethod\<close> reads the method token from the
  engine, once, and returns what the table of known tokens (GET, POST, HEAD, PUT,
  DELETE, CONNECT, OPTIONS, TRACE, PURGE, ICP-QUERY, distinct strings of the engine)
  maps it to, unknown for any token outside the table; and for a request that lacks
  a handle and whose method was never initialized it returns unknown and asks the
  engine nothing.
\<close>

theorem getMethod_maps_token:
  "(distinct (known_method_tokens eng) \<and> hdr_buf_m st \<noteq> NULL \<and> hdr_loc_m st \<noteq> NULL
      \<and> method_m st = InitializableValue_ctor HTTP_METHOD_UNKNOWN False
    \<longrightarrow> fst (getMethod eng st) =
          token_to_method eng (TSHttpHdrMethodGet eng (hdr_buf_m st) (hdr_loc_m st))
        \<and> filter is_engine_call (snd (snd (getMethod eng st))) =
            [Call_TSHttpHdrMethodGet (hdr_buf_m st) (hdr_loc_m st)])
   \<and> ((hdr_buf_m st = NULL \<or> hdr_loc_m st = NULL)
      \<and> method_m st = InitializableValue_ctor HTTP_METHOD_UNKNOWN False
    \<longrightarrow> getMethod eng st = (HTTP_METHOD_UNKNOWN, st, []))"
proof (intro conjI impI)
  assume h: "distinct (known_method_tokens eng) \<and> hdr_buf_m st \<noteq> NULL \<and> hdr_loc_m st \<noteq> NULL
      \<and> method_m st = InitializableValue_ctor HTTP_METHOD_UNKNOWN False"
  obtain method_str method_len
    where reply: "TSHttpHdrMethodGet eng (hdr_buf_m st) (hdr_loc_m st) = (method_str, method_len)"
    by (cases "TSHttpHdrMethodGet eng (hdr_buf_m st) (hdr_loc_m st)")
  have fresh: "getValue (method_m st) = HTTP_METHOD_UNKNOWN" "\<not> isInitialized (method_m st)"
    using h by (simp_all add: iv_defs)
  show "fst (getMethod eng st) =
          token_to_method eng (TSHttpHdrMethodGet eng (hdr_buf_m st) (hdr_loc_m st))"
    using h fresh assign_method_table [of eng method_str st]
    by (simp add: getMethod_def Let_def token_to_method_def reply split: option.splits)
  show "filter is_engine_call (snd (snd (getMethod eng st))) =
          [Call_TSHttpHdrMethodGet (hdr_buf_m st) (hdr_loc_m st)]"
    using h fresh by (simp add: getMethod_def Let_def reply)
next
  assume h: "(hdr_buf_m st = NULL \<or> hdr_loc_m st = NULL)
      \<and> method_m st = InitializableValue_ctor HTTP_METHOD_UNKNOWN False"
  then have "getValue (method_m st) = HTTP_METHOD_UNKNOWN"
    by (simp add: iv_defs)
  with h show "getMethod eng st = (HTTP_METHOD_UNKNOWN, st, [])"
    using getMethod_no_query [of st eng] by auto
qed

text \<open>
  A header whose method is the well-known PUT string reads as PUT, the token at
  address 200 as unknown, and a default-constructed request as unknown with no
  engine call.
\<close>

theorem getMethod_maps_token_witness:
  "distinct (known_method_tokens put_engine)
   \<and> fst (getMethod put_engine (fst (Request_attached put_engine 3 4))) = HTTP_METHOD_PUT
   \<and> fst (getMethod example_engine attached_request) = HTTP_METHOD_UNKNOWN
   \<and> getMethod example_engine (fst Request_default) = (HTTP_METHOD_UNKNOWN, fst Request_default, [])"
  using getMethod_maps_token [of put_engine "fst (Request_attached put_engine 3 4)"]
    getMethod_maps_token [of example_engine attached_request]
    getMethod_maps_token [of example_engine "fst Request_default"]
  by (simp add: token_to_method_def known_method_tokens_def method_table_def example_defs
        init_def Let_def iv_defs sub_defs)

section \<open>Standalone construction\<close>

lemma standalone_fields:
  "method_m (fst (Request_standalone eng url_str method version)) =
     InitializableValue_ctor method True"
  "version_m (fst (Request_standalone eng url_str method version)) =
     InitializableValue_ctor version True"
  "destroy_buf_m (fst (Request_standalone eng url_str method version))"
  "hdr_buf_m (fst (Request_standalone eng url_str method version)) = TSMBufferCreate eng"
  "headers_m (fst (Request_standalone eng url_str method version)) =
     \<lparr>headers_buf_m = NULL, headers_loc_m = NULL, detached_m = True\<rparr>"
  by (simp_all add: Request_standalone_def RequestState_ctor_def Let_def iv_defs sub_defs
        case_prod_beta)

lemma standalone_one_buffer:
  "count_list (snd (Request_standalone eng url_str method version)) Call_TSMBufferCreate = 1"
  by (simp add: Request_standalone_def Let_def case_prod_beta)

lemma standalone_reads_cached:
  "getMethod eng (fst (Request_standalone eng url_str method version)) =
     (method, fst (Request_standalone eng url_str method version), [])"
  "getVersion eng (fst (Request_standalone eng url_str method version)) =
     (version, fst (Request_standalone eng url_str method version), [])"
proof -
  let ?st = "fst (Request_standalone eng url_str method version)"
  have m: "isInitialized (method_m ?st)" "getValue (method_m ?st) = method"
    by (simp_all add: standalone_fields iv_defs)
  have v: "isInitialized (version_m ?st)" "getValue (version_m ?st) = version"
    by (simp_all add: standalone_fields iv_defs)
  show "getMethod eng ?st = (method, ?st, [])"
    using getMethod_no_query [of ?st eng] m by simp
  show "getVersion eng ?st = (version, ?st, [])"
    using getVersion_no_query [of ?st eng] v by simp
qed

text \<open>
  Claim C5. For every request built by the standalone constructor from a URL string,
  a method and a version: the method and version caches are initialized with the
  given values, one private buffer is allocated and stored with the ownership flag
  set, the header collection is detached, and \<open>getMethod\<close> and \<open>getVersion\<close> return
  the given values, leave the state as it is and make no engine call.
\<close>

theorem standalone_initialized:
  "method_m (fst (Request_standalone eng url_str method version)) =
     InitializableValue_ctor method True
   \<and> version_m (fst (Request_standalone eng url_str method version)) =
     InitializableValue_ctor version True
   \<and> count_list (snd (Request_standalone eng url_str method version)) Call_TSMBufferCreate = 1
   \<and> hdr_buf_m (fst (Request_standalone eng url_str method version)) = TSMBufferCreate eng
   \<and> destroy_buf_m (fst (Request_standalone eng url_str method version))
   \<and> getHeaders (fst (Request_standalone eng url_str method version)) =
       \<lparr>headers_buf_m = NULL, headers_loc_m = NULL, detached_m = True\<rparr>
   \<and> getMethod eng (fst (Request_standalone eng url_str method version)) =
       (method, fst (Request_standalone eng url_str method version), [])
   \<and> getVersion eng (fst (Request_standalone eng url_str method version)) =
       (version, fst (Request_standalone eng url_str method version), [])"
  by (intro conjI)
     (simp_all add: standalone_fields standalone_one_buffer standalone_reads_cached
        getHeaders_def)

theorem standalone_initialized_witness:
  "getMethod example_engine
     (fst (Request_standalone example_engine ''http://example.com/x'' HTTP_METHOD_POST HTTP_VERSION_1_1))
   = (HTTP_METHOD_POST,
      fst (Request_standalone example_engine ''http://example.com/x'' HTTP_METHOD_POST HTTP_VERSION_1_1), [])
   \<and> getVersion example_engine
     (fst (Request_standalone example_engine ''http://example.com/x'' HTTP_METHOD_POST HTTP_VERSION_1_1))
   = (HTTP_VERSION_1_1,
      fst (Request_standalone example_engine ''http://example.com/x'' HTTP_METHOD_POST HTTP_VERSION_1_1), [])
   \<and> destroy_buf_m
     (fst (Request_standalone example_engine ''http://example.com/x'' HTTP_METHOD_POST HTTP_VERSION_1_1))"
  using standalone_initialized [of example_engine "''http://example.com/x''" HTTP_METHOD_POST HTTP_VERSION_1_1]
  by simp

text \<open>
  Claim C6. For every standalone construction whose URL string does not parse (the
  engine does not answer \<^verbatim>\<open>TS_PARSE_DONE\<close>, or gives no URL location to parse
  into), construction still yields a descriptor: exactly one error is logged, the URL
  view is unset, and everything else is in place: the header collection is detached,
  the private buffer is stored and owned, and \<open>getMethod\<close> and \<open>getVersion\<close> return
  the values given to the constructor.
\<close>

theorem standalone_unparsed_url:
  assumes "fst (TSUrlCreate eng (TSMBufferCreate eng)) \<noteq> TS_SUCCESS
           \<or> TSUrlParse eng (TSMBufferCreate eng) (snd (TSUrlCreate eng (TSMBufferCreate eng))) url_str
               \<noteq> TS_PARSE_DONE"
  shows "Url_is_unset (getUrl (fst (Request_standalone eng url_str method version)))
   \<and> filter is_LOG_ERROR (snd (Request_standalone eng url_str method version)) =
       [LOG_ERROR (if fst (TSUrlCreate eng (TSMBufferCreate eng)) = TS_SUCCESS
                   then Not_a_valid_url url_str
                   else Could_not_create_URL_field (TSMBufferCreate eng))]
   \<and> getHeaders (fst (Request_standalone eng url_str method version)) =
       \<lparr>headers_buf_m = NULL, headers_loc_m = NULL, detached_m = True\<rparr>
   \<and> hdr_buf_m (fst (Request_standalone eng url_str method version)) = TSMBufferCreate eng
   \<and> destroy_buf_m (fst (Request_standalone eng url_str method version))
   \<and> getMethod eng (fst (Request_standalone eng url_str method version)) =
       (method, fst (Request_standalone eng url_str method version), [])
   \<and> getVersion eng (fst (Request_standalone eng url_str method version)) =
       (version, fst (Request_standalone eng url_str method version), [])"
proof -
  have u: "Url_is_unset (getUrl (fst (Request_standalone eng url_str method version)))"
    using assms
    by (auto simp add: Request_standalone_def RequestState_ctor_def Let_def getUrl_def
          Url_is_unset_def case_prod_beta)
  have e: "filter is_LOG_ERROR (snd (Request_standalone eng url_str method version)) =
       [LOG_ERROR (if fst (TSUrlCreate eng (TSMBufferCreate eng)) = TS_SUCCESS
                   then Not_a_valid_url url_str
                   else Could_not_create_URL_field (TSMBufferCreate eng))]"
    using assms
    by (auto simp add: Request_standalone_def RequestState_ctor_def Let_def case_prod_beta)
  show ?thesis
    using u e by (simp add: standalone_fields standalone_reads_cached getHeaders_def)
qed

theorem standalone_unparsed_url_witness:
  "Url_is_unset (getUrl (fst (Request_standalone example_engine ''::::not a url''
       HTTP_METHOD_POST HTTP_VERSION_1_1)))
   \<and> filter is_LOG_ERROR (snd (Request_standalone example_engine ''::::not a url''
       HTTP_METHOD_POST HTTP_VERSION_1_1)) = [LOG_ERROR (Not_a_valid_url ''::::not a url'')]
   \<and> fst (getMethod example_engine (fst (Request_standalone example_engine ''::::not a url''
       HTTP_METHOD_POST HTTP_VERSION_1_1))) = HTTP_METHOD_POST
   \<and> fst (getVersion example_engine (fst (Request_standalone example_engine ''::::not a url''
       HTTP_METHOD_POST HTTP_VERSION_1_1))) = HTTP_VERSION_1_1"
  using standalone_unparsed_url [of example_engine "''::::not a url''" HTTP_METHOD_POST HTTP_VERSION_1_1]
  by (simp add: example_engine_def)

section \<open>Destruction\<close>

text \<open>
  Claim C3 as stated fails. A request attached to buffer 3 and header location 4 of
  an engine that extracts no URL location does not own a buffer and has no URL
  location: its destructor makes no engine call at all, where the second of the two
  paths would release the URL location under the header location.
\<close>

theorem dtor_counterexample:
  "\<not> destroy_buf_m (fst (Request_attached no_url_engine 3 4))
   \<and> filter is_engine_call (Request_dtor (fst (Request_attached no_url_engine 3 4)))
       \<noteq> dtor_two_paths (fst (Request_attached no_url_engine 3 4))"
  by (simp add: Request_dtor_def dtor_two_paths_def example_defs init_def Let_def
        iv_defs sub_defs)

text \<open>
  Claim C3, amended. For every request whose URL location handle is set, destruction
  follows exactly one of two paths: if the descriptor owns its buffer, the destructor
  releases the URL location with a null parent and then destroys the private buffer;
  otherwise it releases the URL location against the header location as parent and
  does not destroy the buffer. A request that does not own its buffer and has no URL
  location releases nothing and destroys nothing.
\<close>

theorem dtor_paths:
  "(url_loc_m st \<noteq> NULL \<longrightarrow> filter is_engine_call (Request_dtor st) = dtor_two_paths st)
   \<and> (url_loc_m st = NULL \<and> \<not> destroy_buf_m st \<longrightarrow> Request_dtor st = [])"
proof (intro conjI impI)
  assume "url_loc_m st \<noteq> NULL"
  then show "filter is_engine_call (Request_dtor st) = dtor_two_paths st"
    by (cases "destroy_buf_m st") (simp_all add: Request_dtor_def dtor_two_paths_def)
next
  assume "url_loc_m st = NULL \<and> \<not> destroy_buf_m st"
  then show "Request_dtor st = []"
    by (simp add: Request_dtor_def)
qed

text \<open>
  The standalone request of the example engine releases location 2 under a null
  parent and destroys buffer 1; the attached request releases location 7 under
  location 4 of buffer 3; the default-constructed request does nothing.
\<close>

theorem dtor_paths_witness:
  "filter is_engine_call (Request_dtor (fst (Request_standalone example_engine
       ''http://example.com/x'' HTTP_METHOD_POST HTTP_VERSION_1_1))) =
     [Call_TSHandleMLocRelease 1 NULL 2, Call_TSMBufferDestroy 1]
   \<and> filter is_engine_call (Request_dtor attached_request) = [Call_TSHandleMLocRelease 3 4 7]
   \<and> Request_dtor (fst Request_default) = []"
  using dtor_paths [of "fst (Request_standalone example_engine
       ''http://example.com/x'' HTTP_METHOD_POST HTTP_VERSION_1_1)"]
    dtor_paths [of attached_request]
    dtor_paths [of "fst Request_default"]
  by (simp add: dtor_two_paths_def Request_standalone_def example_defs init_def Let_def
        iv_defs sub_defs)

section \<open>The default handlers\<close>

text \<open>
  Claim C8. For every hook of the enumeration, the default handler of that hook
  calls \<open>resume\<close> on the transaction exactly once and does nothing else: the calls
  made on the transaction are those made before and one \<open>resume\<close>.
\<close>

theorem default_handler_resumes_once:
  "default_handler hook transaction = transaction @ [Call_resume]"
proof (cases hook)
  case HOOK_READ_REQUEST_HEADERS_PRE_REMAP
  then show ?thesis by (simp add: handleReadRequestHeadersPreRemap_def resume_def)
next
  case HOOK_READ_REQUEST_HEADERS_POST_REMAP
  then show ?thesis by (simp add: handleReadRequestHeadersPostRemap_def resume_def)
next
  case HOOK_SEND_REQUEST_HEADERS
  then show ?thesis by (simp add: handleSendRequestHeaders_def resume_def)
next
  case HOOK_READ_RESPONSE_HEADERS
  then show ?thesis by (simp add: handleReadResponseHeaders_def resume_def)
next
  case HOOK_SEND_RESPONSE_HEADERS
  then show ?thesis by (simp add: handleSendResponseHeaders_def resume_def)
next
  case HOOK_OS_DNS
  then show ?thesis by (simp add: handleOsDns_def resume_def)
qed

theorem default_handler_resumes_once_witness:
  "default_handler HOOK_OS_DNS [] = [Call_resume]
   \<and> count_list (default_handler HOOK_SEND_REQUEST_HEADERS []) Call_resume = 1"
  using default_handler_resumes_once [of HOOK_OS_DNS "[]"]
    default_handler_resumes_once [of HOOK_SEND_REQUEST_HEADERS "[]"]
  by simp

end
